theory Spec2Isabelle
  imports Complex_Main "HOL-Library.Word" "HOL-Library.Sublist"
begin

section \<open>The NIfTI bridge of VesselExpress (\<open>workflow/scripts/nifti_utils.py\<close>)\<close>

text \<open>
  The module has three functions: \<open>load_nifti\<close>, \<open>nifti_to_tiff\<close> and
  \<open>get_pixel_dimensions_from_nifti\<close>. They are embedded below in the order of the
  source. What the module takes from its libraries (nibabel, numpy, tifffile, pathlib,
  the built-in \<open>str\<close>) is modelled as follows.

  \<^item> A sample is a floating-point value: a finite number, an infinity or NaN. The
    arithmetic on samples is that of IEEE 754: an operation on finite operands returns
    its exact result rounded, and the rounding function (to the nearest value of the
    width, to an infinity on overflow) is a parameter \<open>rnd\<close>, one per width. The
    operations on infinities and NaN are written out. The two zeros are not told
    apart.
  \<^item> Spacings are only printed; they are real numbers. The default string form of a
    number (\<open>str\<close> of a numpy float inside an f-string) belongs to the platform; it
    is a parameter \<open>fmt\<close> of the functions that print numbers.
  \<^item> The conversion of a floating-point value to \<open>uint16\<close> truncates towards zero
    when the truncated value fits 16 bits. Outside that range, and for NaN and the
    infinities, the C conversion that numpy performs is undefined; what the platform
    yields there is a parameter \<open>oor\<close>.
  \<^item> The file system is an environment: what \<open>nib.load\<close> returns for a path and which
    paths can be written. Writes are collected in a log.
  \<^item> Paths follow the POSIX flavour of pathlib. Strings are lists of bytes; the
    separators and suffixes the code looks for are ASCII, so the UTF-8 encoding of other
    characters does not matter.
\<close>

subsection \<open>Errors, arrays, images\<close>

datatype py_error = ImageFileError | ValueError | OSError

datatype float_dtype = float32 | float64

datatype int_dtype = int8 | int16 | int32 | int64 | uint8 | uint32 | uint64

text \<open>A floating-point value of either width.\<close>

datatype fval = Finite real | PInf | NInf | NaN

text \<open>
  A numpy array, flattened: the element type with the samples. Minimum, maximum and the
  elementwise operations of the source do not depend on the shape, which is left out.
\<close>

datatype ndarray =
    FloatArray float_dtype "fval list"
  | UInt16Array "16 word list"
  | IntArray int_dtype "int list"

datatype dtype = FloatT float_dtype | UInt16T | IntT int_dtype

fun dtype_of :: "ndarray \<Rightarrow> dtype" where
  "dtype_of (FloatArray w xs) = FloatT w"
| "dtype_of (UInt16Array ws) = UInt16T"
| "dtype_of (IntArray k ns) = IntT k"

text \<open>
  The header as far as the module reads it: \<open>get_zooms()\<close> and the text that
  \<open>str(header)\<close> prints.
\<close>

record nifti_header =
  zooms :: "real list"
  header_dump :: string

text \<open>
  A loaded image (\<open>nib.load\<close>): the array as stored in the file, the values that
  \<open>get_fdata()\<close> computes from it (scaling applied), the affine matrix and the
  header.
\<close>

record nifti_image =
  dataobj :: ndarray
  fdata :: "fval list"
  affine :: "real list list"
  header :: nifti_header

record environment =
  nib_load :: "string \<Rightarrow> py_error + nifti_image"
  writable :: "string \<Rightarrow> bool"

subsection \<open>\<open>load_nifti\<close>\<close>

text \<open>
  \<^verbatim>\<open>img = nib.load(filepath); data = img.get_fdata()\<close>:
  \<open>get_fdata\<close> with its default argument returns an array of 64-bit floats.
\<close>

definition get_fdata :: "nifti_image \<Rightarrow> ndarray" where
  "get_fdata img = FloatArray float64 (fdata img)"

definition load_nifti ::
  "environment \<Rightarrow> string \<Rightarrow> py_error + (ndarray \<times> real list list \<times> nifti_header)" where
  "load_nifti env filepath =
     (case nib_load env filepath of
        Inl e \<Rightarrow> Inl e
      | Inr img \<Rightarrow> Inr (get_fdata img, affine img, header img))"

subsection \<open>\<open>get_pixel_dimensions_from_nifti\<close>\<close>

text \<open>
  \<^verbatim>\<open>if len(zooms) >= 3: return f"{zooms[2]},{zooms[1]},{zooms[0]}"\<close>
  \<^verbatim>\<open>else: return "1.0,1.0,1.0"\<close>
\<close>

definition pixel_dimensions :: "(real \<Rightarrow> string) \<Rightarrow> real list \<Rightarrow> string" where
  "pixel_dimensions fmt zs =
     (if length zs \<ge> 3
      then fmt (zs ! 2) @ '','' @ fmt (zs ! 1) @ '','' @ fmt (zs ! 0)
      else ''1.0,1.0,1.0'')"

definition get_pixel_dimensions_from_nifti ::
  "environment \<Rightarrow> (real \<Rightarrow> string) \<Rightarrow> string \<Rightarrow> py_error + string" where
  "get_pixel_dimensions_from_nifti env fmt filepath =
     (case nib_load env filepath of
        Inl e \<Rightarrow> Inl e
      | Inr img \<Rightarrow> Inr (pixel_dimensions fmt (zooms (header img))))"

text \<open>
  A rendering of numbers for the examples: it prints 0.5, 1 and 2 the way Python
  does (\<open>0.5\<close>, \<open>1.0\<close>, \<open>2.0\<close>) and says nothing faithful about other values.
\<close>

definition example_fmt :: "real \<Rightarrow> string" where
  "example_fmt x = (if x = 2 then ''2.0'' else if x = 1 then ''1.0'' else ''0.5'')"

text \<open>
  An image of finite samples whose header reports the given spacing, and an environment
  with one file.
\<close>

definition example_image :: "real list \<Rightarrow> real list \<Rightarrow> nifti_image" where
  "example_image xs zs =
     \<lparr>dataobj = FloatArray float32 (map Finite xs), fdata = map Finite xs,
      affine = [], header = \<lparr>zooms = zs, header_dump = ''''\<rparr>\<rparr>"

definition example_env :: "string \<Rightarrow> nifti_image \<Rightarrow> environment" where
  "example_env p img =
     \<lparr>nib_load = (\<lambda>q. if q = p then Inr img else Inl ImageFileError),
      writable = (\<lambda>q. True)\<rparr>"

subsection \<open>Floating-point values and their arithmetic\<close>

text \<open>
  Comparison as Python's \<open><\<close> on floats does it: nothing is less than a NaN and a NaN
  is less than nothing. \<open>fle\<close> is the order of the values that are not NaN.
\<close>

fun fless :: "fval \<Rightarrow> fval \<Rightarrow> bool" where
  "fless NaN b = False"
| "fless a NaN = False"
| "fless (Finite x) (Finite y) = (x < y)"
| "fless (Finite x) PInf = True"
| "fless (Finite x) NInf = False"
| "fless PInf b = False"
| "fless NInf NInf = False"
| "fless NInf b = True"

fun fle :: "fval \<Rightarrow> fval \<Rightarrow> bool" where
  "fle NaN b = False"
| "fle a NaN = False"
| "fle (Finite x) (Finite y) = (x \<le> y)"
| "fle (Finite x) PInf = True"
| "fle (Finite x) NInf = False"
| "fle PInf PInf = True"
| "fle PInf b = False"
| "fle NInf b = True"

fun is_nan :: "fval \<Rightarrow> bool" where
  "is_nan NaN = True"
| "is_nan v = False"

text \<open>
  One step of numpy's \<open>min\<close> and \<open>max\<close> reductions, which return NaN as soon as a
  NaN is among the samples.
\<close>

definition fmin2 :: "fval \<Rightarrow> fval \<Rightarrow> fval" where
  "fmin2 a b = (if is_nan a \<or> is_nan b then NaN else if fless b a then b else a)"

definition fmax2 :: "fval \<Rightarrow> fval \<Rightarrow> fval" where
  "fmax2 a b = (if is_nan a \<or> is_nan b then NaN else if fless a b then b else a)"

text \<open>
  Subtraction, division and multiplication of IEEE 754. On finite operands the result
  is the exact result rounded by \<open>r\<close>; on the others it is what the standard fixes.
  numpy raises nothing on a division by zero.
\<close>

fun fsub :: "(real \<Rightarrow> fval) \<Rightarrow> fval \<Rightarrow> fval \<Rightarrow> fval" where
  "fsub r NaN b = NaN"
| "fsub r a NaN = NaN"
| "fsub r (Finite x) (Finite y) = r (x - y)"
| "fsub r (Finite x) PInf = NInf"
| "fsub r (Finite x) NInf = PInf"
| "fsub r PInf PInf = NaN"
| "fsub r PInf b = PInf"
| "fsub r NInf NInf = NaN"
| "fsub r NInf b = NInf"

fun fdiv :: "(real \<Rightarrow> fval) \<Rightarrow> fval \<Rightarrow> fval \<Rightarrow> fval" where
  "fdiv r NaN b = NaN"
| "fdiv r a NaN = NaN"
| "fdiv r (Finite x) (Finite y) =
     (if y = 0 then (if x = 0 then NaN else if x > 0 then PInf else NInf) else r (x / y))"
| "fdiv r (Finite x) b = Finite 0"
| "fdiv r PInf (Finite y) = (if y \<ge> 0 then PInf else NInf)"
| "fdiv r NInf (Finite y) = (if y \<ge> 0 then NInf else PInf)"
| "fdiv r a b = NaN"

fun fmul :: "(real \<Rightarrow> fval) \<Rightarrow> fval \<Rightarrow> fval \<Rightarrow> fval" where
  "fmul r NaN b = NaN"
| "fmul r a NaN = NaN"
| "fmul r (Finite x) (Finite y) = r (x * y)"
| "fmul r (Finite x) PInf = (if x = 0 then NaN else if x > 0 then PInf else NInf)"
| "fmul r (Finite x) NInf = (if x = 0 then NaN else if x > 0 then NInf else PInf)"
| "fmul r PInf (Finite y) = (if y = 0 then NaN else if y > 0 then PInf else NInf)"
| "fmul r NInf (Finite y) = (if y = 0 then NaN else if y > 0 then NInf else PInf)"
| "fmul r PInf PInf = PInf"
| "fmul r PInf NInf = NInf"
| "fmul r NInf PInf = NInf"
| "fmul r NInf NInf = PInf"

text \<open>
  What the statements below ask of a rounding function, and what rounding to nearest
  gives in both widths: it is monotone (so it never yields NaN), and 0, 1 and 65535,
  which both widths represent, are left as they are.
\<close>

definition rounds_to_nearest :: "(real \<Rightarrow> fval) \<Rightarrow> bool" where
  "rounds_to_nearest r \<longleftrightarrow>
     (\<forall>a b. a \<le> b \<longrightarrow> fle (r a) (r b)) \<and>
     r 0 = Finite 0 \<and> r 1 = Finite 1 \<and> r 65535 = Finite 65535"

text \<open>
  A rounding that changes nothing, for the examples. It agrees with rounding to
  nearest wherever the exact result is representable, as are all the results that
  the examples below compute (1, 4, 0.25, 16383.75, 65535).
\<close>

definition unrounded :: "float_dtype \<Rightarrow> real \<Rightarrow> fval" where
  "unrounded w x = Finite x"

subsection \<open>\<open>nifti_to_tiff\<close>: the sample normalizer (lines 60 to 67)\<close>

text \<open>\<open>astype(np.uint16)\<close> on a floating-point value: the C conversion, which truncates.\<close>

definition trunc_toward_zero :: "real \<Rightarrow> int" where
  "trunc_toward_zero x = (if x \<ge> 0 then \<lfloor>x\<rfloor> else \<lceil>x\<rceil>)"

fun astype_uint16 :: "(fval \<Rightarrow> 16 word) \<Rightarrow> fval \<Rightarrow> 16 word" where
  "astype_uint16 oor (Finite x) =
     (let t = trunc_toward_zero x
      in if 0 \<le> t \<and> t \<le> 65535 then word_of_int t else oor (Finite x))"
| "astype_uint16 oor v = oor v"

text \<open>
  A platform that wraps modulo \<open>2 ^ 16\<close> out of range and gives 0 for NaN and the
  infinities; used in the examples.
\<close>

fun wrap_cast :: "fval \<Rightarrow> 16 word" where
  "wrap_cast (Finite x) = word_of_int (trunc_toward_zero x)"
| "wrap_cast v = 0"

text \<open>
  \<^verbatim>\<open>(data - data_min) / (data_max - data_min) * 65535\<close>, for one sample: three
  floating-point operations, each rounded.
\<close>

definition rescale :: "(real \<Rightarrow> fval) \<Rightarrow> fval \<Rightarrow> fval \<Rightarrow> fval \<Rightarrow> fval" where
  "rescale r data_min data_max v =
     fmul r (fdiv r (fsub r v data_min) (fsub r data_max data_min)) (Finite 65535)"

text \<open>
  \<^verbatim>\<open>if data.dtype == np.float32 or data.dtype == np.float64:\<close>
  \<^verbatim>\<open>    data_min = data.min(); data_max = data.max()\<close>
  \<^verbatim>\<open>    if data_max > data_min: data = (...).astype(np.uint16)\<close>
  \<^verbatim>\<open>    else: data = data.astype(np.uint16)\<close>
  \<open>min\<close> and \<open>max\<close> of an array with no element raise \<open>ValueError\<close>. The
  arithmetic is done in the width of the array.
\<close>

fun normalize_samples ::
  "(float_dtype \<Rightarrow> real \<Rightarrow> fval) \<Rightarrow> (fval \<Rightarrow> 16 word) \<Rightarrow> ndarray \<Rightarrow> py_error + ndarray" where
  "normalize_samples rnd oor (FloatArray w []) = Inl ValueError"
| "normalize_samples rnd oor (FloatArray w (x # xs)) =
     (let data_min = fold fmin2 xs x; data_max = fold fmax2 xs x
      in if fless data_min data_max
         then Inr (UInt16Array
                (map (\<lambda>v. astype_uint16 oor (rescale (rnd w) data_min data_max v)) (x # xs)))
         else Inr (UInt16Array (map (astype_uint16 oor) (x # xs))))"
| "normalize_samples rnd oor (UInt16Array ws) = Inr (UInt16Array ws)"
| "normalize_samples rnd oor (IntArray k ns) = Inr (IntArray k ns)"

text \<open>
  The formula of the specification, \<open>round((v - min) / (max - min) * 65535)\<close>, to
  compare the code with.
\<close>

definition spec_normalized_sample :: "real \<Rightarrow> real \<Rightarrow> real \<Rightarrow> 16 word" where
  "spec_normalized_sample data_min data_max v =
     word_of_int (round ((v - data_min) / (data_max - data_min) * 65535))"

subsection \<open>\<open>nifti_to_tiff\<close>: paths (lines 70 to 76 and 84)\<close>

text \<open>\<open>str.split(sep)\<close>, \<open>sep.join(parts)\<close>, \<open>str.rfind(c)\<close>, \<open>str.endswith(suffix)\<close>.\<close>

fun split_sep :: "char \<Rightarrow> string \<Rightarrow> string list" where
  "split_sep c [] = [[]]"
| "split_sep c (x # xs) =
     (if x = c then [] # split_sep c xs
      else (case split_sep c xs of [] \<Rightarrow> [[x]] | p # ps \<Rightarrow> (x # p) # ps))"

fun join_sep :: "string \<Rightarrow> string list \<Rightarrow> string" where
  "join_sep sep [] = []"
| "join_sep sep [p] = p"
| "join_sep sep (p # q # ps) = p @ sep @ join_sep sep (q # ps)"

fun rfind :: "char \<Rightarrow> string \<Rightarrow> int" where
  "rfind c [] = - 1"
| "rfind c (x # xs) =
     (let r = rfind c xs in if r \<ge> 0 then r + 1 else if x = c then 0 else - 1)"

definition endswith :: "string \<Rightarrow> string \<Rightarrow> bool" where
  "endswith s suf \<longleftrightarrow> length suf \<le> length s \<and> drop (length s - length suf) s = suf"

text \<open>
  \<open>str.replace(old, new)\<close>: every occurrence of \<open>old\<close>, from the left, without
  overlap. For an empty \<open>old\<close> Python puts \<open>new\<close> before every character and at the end.
\<close>

function str_replace :: "string \<Rightarrow> string \<Rightarrow> string \<Rightarrow> string" where
  "str_replace old new s =
     (if old = [] then new @ concat (map (\<lambda>c. c # new) s)
      else if s = [] then []
      else if prefix old s then new @ str_replace old new (drop (length old) s)
      else hd s # str_replace old new (tl s))"
  by pat_completeness auto
termination
  by (relation "measure (\<lambda>(old, new, s). length s)") auto

text \<open>
  A pure POSIX path of pathlib: the root (empty, one slash or two slashes) and the
  components, with empty components and \<open>.\<close> dropped when the string is parsed.
\<close>

record pure_path =
  path_root :: string
  path_parts :: "string list"

definition splitroot :: "string \<Rightarrow> string" where
  "splitroot s =
     (let n = length (takeWhile (\<lambda>c. c = CHR ''/'') s)
      in if n = 0 then '''' else if n = 2 then ''//'' else ''/'')"

definition Path :: "string \<Rightarrow> pure_path" where
  "Path s =
     \<lparr>path_root = splitroot s,
      path_parts = filter (\<lambda>x. x \<noteq> '''' \<and> x \<noteq> ''.'') (split_sep CHR ''/'' s)\<rparr>"

definition path_name :: "pure_path \<Rightarrow> string" where
  "path_name p = (if path_parts p = [] then '''' else last (path_parts p))"

definition path_stem :: "pure_path \<Rightarrow> string" where
  "path_stem p =
     (let name = path_name p; i = rfind CHR ''.'' name
      in if 0 < i \<and> i < int (length name) - 1 then take (nat i) name else name)"

definition path_parent :: "pure_path \<Rightarrow> pure_path" where
  "path_parent p =
     (if path_parts p = [] then p else p\<lparr>path_parts := butlast (path_parts p)\<rparr>)"

definition joinpath :: "pure_path \<Rightarrow> string \<Rightarrow> pure_path" where
  "joinpath p s =
     (let q = Path s
      in if path_root q \<noteq> '''' then q
         else \<lparr>path_root = path_root p, path_parts = path_parts p @ path_parts q\<rparr>)"

definition path_str :: "pure_path \<Rightarrow> string" where
  "path_str p =
     (let s = path_root p @ join_sep ''/'' (path_parts p)
      in if s = '''' then ''.'' else s)"

text \<open>
  \<^verbatim>\<open>stem = input_path_obj.stem\<close>
  \<^verbatim>\<open>if stem.endswith('.nii'): stem = stem[:-4]\<close>
  \<^verbatim>\<open>output_path = str(input_path_obj.parent / f"{stem}.tiff")\<close>
\<close>

definition default_output_path :: "string \<Rightarrow> string" where
  "default_output_path input_path =
     (let input_path_obj = Path input_path;
          stem = path_stem input_path_obj;
          stem = (if endswith stem ''.nii'' then take (length stem - 4) stem else stem)
      in path_str (joinpath (path_parent input_path_obj) (stem @ ''.tiff'')))"

text \<open>\<^verbatim>\<open>metadata_path = output_path.replace('.tiff', '_nifti_metadata.txt')\<close>\<close>

definition metadata_path :: "string \<Rightarrow> string" where
  "metadata_path output_path = str_replace ''.tiff'' ''_nifti_metadata.txt'' output_path"

subsection \<open>\<open>nifti_to_tiff\<close>: the conversion\<close>

text \<open>
  What the metadata file reports, as the values the source interpolates into its text:
  the input path, the element type of the array that was written, the affine matrix,
  the spacing in the order of the header and the header's own text. The line with the
  shape is not modelled.
\<close>

record metadata_report =
  original_file :: string
  data_type :: dtype
  affine_matrix :: "real list list"
  pixel_dims :: "real list"
  header_text :: string

datatype file_write = TiffWrite string ndarray | TextWrite string metadata_report

text \<open>
  Lines 58 to 95, on what \<open>load_nifti\<close> returned. The result is the log of the writes
  that happened and either the error raised or the path returned.
\<close>

definition convert_loaded ::
  "environment \<Rightarrow> (float_dtype \<Rightarrow> real \<Rightarrow> fval) \<Rightarrow> (fval \<Rightarrow> 16 word) \<Rightarrow> string \<Rightarrow>
   string option \<Rightarrow> ndarray \<times> real list list \<times> nifti_header \<Rightarrow>
   file_write list \<times> (py_error + string)" where
  "convert_loaded env rnd oor input_path output_path loaded =
     (case loaded of (data, aff, hdr) \<Rightarrow>
        (case normalize_samples rnd oor data of
           Inl e \<Rightarrow> ([], Inl e)
         | Inr data' \<Rightarrow>
             (let out = (case output_path of
                           None \<Rightarrow> default_output_path input_path
                         | Some p \<Rightarrow> p)
              in if \<not> writable env out then ([], Inl OSError)
                 else
                   (let md = metadata_path out
                    in if \<not> writable env md then ([TiffWrite out data'], Inl OSError)
                       else ([TiffWrite out data',
                              TextWrite md
                                \<lparr>original_file = input_path, data_type = dtype_of data',
                                 affine_matrix = aff, pixel_dims = zooms hdr,
                                 header_text = header_dump hdr\<rparr>],
                             Inr out)))))"

definition nifti_to_tiff ::
  "environment \<Rightarrow> (float_dtype \<Rightarrow> real \<Rightarrow> fval) \<Rightarrow> (fval \<Rightarrow> 16 word) \<Rightarrow> string \<Rightarrow>
   string option \<Rightarrow> file_write list \<times> (py_error + string)" where
  "nifti_to_tiff env rnd oor input_path output_path =
     (case load_nifti env input_path of
        Inl e \<Rightarrow> ([], Inl e)
      | Inr loaded \<Rightarrow> convert_loaded env rnd oor input_path output_path loaded)"

text \<open>The path a write of the log went to.\<close>

fun write_path :: "file_write \<Rightarrow> string" where
  "write_path (TiffWrite p arr) = p"
| "write_path (TextWrite p rep) = p"

section \<open>Properties\<close>

subsection \<open>The spacing remapper\<close>

text \<open>
  C1. When the header reports three or more spacings, \<open>get_pixel_dimensions_from_nifti\<close>
  returns the first three in reversed order, each in its default string form, joined
  with commas: \<open>"{z},{y},{x}"\<close>. In particular, on a platform that prints 0.5 as
  \<open>0.5\<close> and 2 as \<open>2.0\<close>, the spacing (0.5, 0.5, 2.0) gives \<open>2.0,0.5,0.5\<close>.
\<close>

theorem spacing_reversed:
  "(nib_load env filepath = Inr img \<longrightarrow> 3 \<le> length (zooms (header img)) \<longrightarrow>
      get_pixel_dimensions_from_nifti env fmt filepath =
        Inr (fmt (zooms (header img) ! 2) @ '','' @ fmt (zooms (header img) ! 1) @ '','' @
             fmt (zooms (header img) ! 0)))
   \<and> (fmt (1 / 2) = ''0.5'' \<longrightarrow> fmt 2 = ''2.0'' \<longrightarrow>
        pixel_dimensions fmt [1 / 2, 1 / 2, 2] = ''2.0,0.5,0.5'')"
  by (simp add: get_pixel_dimensions_from_nifti_def pixel_dimensions_def)

theorem spacing_reversed_witness:
  "get_pixel_dimensions_from_nifti
     (example_env ''scan.nii'' (example_image [] [1 / 2, 1 / 2, 2])) example_fmt ''scan.nii''
     = Inr ''2.0,0.5,0.5''
   \<and> pixel_dimensions example_fmt [1 / 2, 1 / 2, 2] = ''2.0,0.5,0.5''"
  using spacing_reversed [of "example_env ''scan.nii'' (example_image [] [1 / 2, 1 / 2, 2])"
      "''scan.nii''" "example_image [] [1 / 2, 1 / 2, 2]" example_fmt]
  by (simp add: example_env_def example_image_def example_fmt_def)

text \<open>
  C6. When the header reports fewer than three spacings, the function returns the
  literal string \<open>1.0,1.0,1.0\<close>.
\<close>

theorem spacing_default_short:
  "nib_load env filepath = Inr img \<Longrightarrow> length (zooms (header img)) < 3 \<Longrightarrow>
     get_pixel_dimensions_from_nifti env fmt filepath = Inr ''1.0,1.0,1.0''"
  by (simp add: get_pixel_dimensions_from_nifti_def pixel_dimensions_def)

theorem spacing_default_short_witness:
  "get_pixel_dimensions_from_nifti
     (example_env ''scan.nii'' (example_image [] [1 / 2, 1 / 2])) example_fmt ''scan.nii''
     = Inr ''1.0,1.0,1.0''"
  using spacing_default_short [of "example_env ''scan.nii'' (example_image [] [1 / 2, 1 / 2])"
      "''scan.nii''" "example_image [] [1 / 2, 1 / 2]" example_fmt]
  by (simp add: example_env_def example_image_def)

text \<open>
  C5, as the specification words it: every spacing vector whose length is not 3,
  vectors with four or more axes included, gives the default. The guard of the source
  is \<open>len(zooms) >= 3\<close>, so a vector with four axes is not sent to the default: the
  spacing (0.5, 0.5, 2.0, 1.0) gives \<open>2.0,0.5,0.5\<close>.
\<close>

theorem spacing_four_axes_counterexample:
  "length [1 / 2, 1 / 2, 2, 1 :: real] \<noteq> 3 \<and>
   get_pixel_dimensions_from_nifti
     (example_env ''scan.nii'' (example_image [] [1 / 2, 1 / 2, 2, 1])) example_fmt ''scan.nii''
     = Inr ''2.0,0.5,0.5'' \<and>
   ''2.0,0.5,0.5'' \<noteq> ''1.0,1.0,1.0''"
  by (simp add: get_pixel_dimensions_from_nifti_def pixel_dimensions_def
      example_env_def example_image_def example_fmt_def)

text \<open>
  C5, amended. A spacing vector whose length is not 3 gives the default
  \<open>1.0,1.0,1.0\<close> when it has fewer than three components; when it has four or more,
  its first three components are returned reversed, as for a vector of length 3.
\<close>

theorem spacing_not_three:
  "nib_load env filepath = Inr img \<Longrightarrow> length (zooms (header img)) \<noteq> 3 \<Longrightarrow>
     get_pixel_dimensions_from_nifti env fmt filepath =
       Inr (if length (zooms (header img)) < 3 then ''1.0,1.0,1.0''
            else fmt (zooms (header img) ! 2) @ '','' @ fmt (zooms (header img) ! 1) @ '','' @
                 fmt (zooms (header img) ! 0))"
  by (simp add: get_pixel_dimensions_from_nifti_def pixel_dimensions_def)

theorem spacing_not_three_witness:
  "get_pixel_dimensions_from_nifti
     (example_env ''scan.nii'' (example_image [] [1 / 2, 1 / 2, 2, 1])) example_fmt ''scan.nii''
     = Inr ''2.0,0.5,0.5''"
  using spacing_not_three [of "example_env ''scan.nii'' (example_image [] [1 / 2, 1 / 2, 2, 1])"
      "''scan.nii''" "example_image [] [1 / 2, 1 / 2, 2, 1]" example_fmt]
  by (simp add: example_env_def example_image_def example_fmt_def)

subsection \<open>The sample normalizer\<close>

text \<open>
  On an array of finite samples the minimum and maximum that the source takes with
  \<open>data.min()\<close> and \<open>data.max()\<close> are those of the set of samples. When the
  difference of the two is computed as a finite positive number, every rescaled value
  is finite and lies between 0 and 65535, by the monotonicity of rounding.
\<close>

lemma fold_fmin2_finite:
  "fold fmin2 (map Finite rs) (Finite r) = Finite (fold min rs r)"
  by (induction rs arbitrary: r) (simp_all add: fmin2_def min_def not_less)

lemma fold_fmax2_finite:
  "fold fmax2 (map Finite rs) (Finite r) = Finite (fold max rs r)"
  by (induction rs arbitrary: r) (simp_all add: fmax2_def max_def not_less)

lemma normalize_finite_nonempty:
  assumes "rs \<noteq> []"
  shows "normalize_samples rnd oor (FloatArray w (map Finite rs)) =
     (if Min (set rs) < Max (set rs)
      then Inr (UInt16Array
             (map (\<lambda>v. astype_uint16 oor
                      (rescale (rnd w) (Finite (Min (set rs))) (Finite (Max (set rs))) (Finite v)))
                rs))
      else Inr (UInt16Array (map (\<lambda>v. astype_uint16 oor (Finite v)) rs)))"
proof -
  obtain y ys where rs: "rs = y # ys" using assms by (cases rs) auto
  have mn: "fold min ys y = Min (set rs)" unfolding rs by (rule Min.set_eq_fold [symmetric])
  have mx: "fold max ys y = Max (set rs)" unfolding rs by (rule Max.set_eq_fold [symmetric])
  have "normalize_samples rnd oor (FloatArray w (map Finite (y # ys))) =
     (if fold min ys y < fold max ys y
      then Inr (UInt16Array
             (map (\<lambda>v. astype_uint16 oor
                      (rescale (rnd w) (Finite (fold min ys y)) (Finite (fold max ys y)) (Finite v)))
                (y # ys)))
      else Inr (UInt16Array (map (\<lambda>v. astype_uint16 oor (Finite v)) (y # ys))))"
    by (simp add: fold_fmin2_finite fold_fmax2_finite Let_def comp_def)
  then show ?thesis unfolding mn mx unfolding rs .
qed

lemma fle_between:
  assumes "fle (Finite a) v" and "fle v (Finite b)"
  obtains x where "v = Finite x" and "a \<le> x" and "x \<le> b"
  using assms by (cases v) auto

lemma rescale_finite:
  assumes r: "rounds_to_nearest r"
    and d: "r (mx - mn) = Finite D" and D: "0 < D"
    and lo: "mn \<le> v" and hi: "v \<le> mx"
  shows "\<exists>p. rescale r (Finite mn) (Finite mx) (Finite v) = Finite p \<and>
           0 \<le> p \<and> p \<le> 65535 \<and> (v = mn \<longrightarrow> p = 0) \<and> (v = mx \<longrightarrow> p = 65535)"
proof -
  have mono: "fle (r a) (r b)" if "a \<le> b" for a b
    using r that by (simp add: rounds_to_nearest_def)
  have r0: "r 0 = Finite 0" and r1: "r 1 = Finite 1" and r65535: "r 65535 = Finite 65535"
    using r by (simp_all add: rounds_to_nearest_def)
  have "fle (Finite 0) (r (v - mn))" using mono [of 0 "v - mn"] lo by (simp add: r0)
  moreover have "fle (r (v - mn)) (Finite D)" using mono [of "v - mn" "mx - mn"] hi by (simp add: d)
  ultimately obtain x where x: "r (v - mn) = Finite x" and x0: "0 \<le> x" and xD: "x \<le> D"
    by (rule fle_between)
  have q_lo: "0 \<le> x / D" using x0 D by simp
  have q_hi: "x / D \<le> 1" using xD D by simp
  have "fle (Finite 0) (r (x / D))" using mono [of 0 "x / D"] q_lo by (simp add: r0)
  moreover have "fle (r (x / D)) (Finite 1)" using mono [of "x / D" 1] q_hi by (simp add: r1)
  ultimately obtain q where q: "r (x / D) = Finite q" and q0: "0 \<le> q" and q1: "q \<le> 1"
    by (rule fle_between)
  have p_lo: "0 \<le> q * 65535" using q0 by simp
  have p_hi: "q * 65535 \<le> 65535" using q1 by simp
  have "fle (Finite 0) (r (q * 65535))" using mono [of 0 "q * 65535"] p_lo by (simp add: r0)
  moreover have "fle (r (q * 65535)) (Finite 65535)"
    using mono [of "q * 65535" 65535] p_hi by (simp add: r65535)
  ultimately obtain p where p: "r (q * 65535) = Finite p" and p0: "0 \<le> p" and p1: "p \<le> 65535"
    by (rule fle_between)
  have eq: "rescale r (Finite mn) (Finite mx) (Finite v) = Finite p"
    using D by (simp add: rescale_def d x q p)
  have at_min: "p = 0" if "v = mn"
  proof -
    have "x = 0" using x that by (simp add: r0)
    then have "q = 0" using q by (simp add: r0)
    then show ?thesis using p by (simp add: r0)
  qed
  have at_max: "p = 65535" if "v = mx"
  proof -
    have "x = D" using x d that by simp
    then have "q = 1" using q D by (simp add: r1)
    then show ?thesis using p by (simp add: r65535)
  qed
  show ?thesis using eq p0 p1 at_min at_max by blast
qed

lemma astype_in_range:
  assumes "0 \<le> x" "x \<le> 65535"
  shows "astype_uint16 oor (Finite x) = word_of_int \<lfloor>x\<rfloor>"
proof -
  have "0 \<le> \<lfloor>x\<rfloor>" using assms by simp
  moreover have "\<lfloor>x\<rfloor> \<le> 65535" using assms by (simp add: floor_le_iff)
  ultimately show ?thesis using assms by (simp add: trunc_toward_zero_def)
qed

lemma uint_floor_in_range:
  assumes "0 \<le> x" "x \<le> 65535"
  shows "uint (word_of_int \<lfloor>x\<rfloor> :: 16 word) = \<lfloor>x\<rfloor>"
proof -
  have "0 \<le> \<lfloor>x\<rfloor>" using assms by simp
  moreover have "\<lfloor>x\<rfloor> < 65536" using assms by (simp add: floor_less_iff)
  ultimately show ?thesis by (simp add: uint_word_of_int)
qed

lemma rounds_to_nearest_unrounded: "rounds_to_nearest (unrounded w)"
  by (simp add: rounds_to_nearest_def unrounded_def)

lemma normalize_float_dtype:
  "normalize_samples rnd oor (FloatArray w xs) = Inr arr \<Longrightarrow> dtype_of arr = UInt16T"
  by (cases xs) (auto simp: Let_def split: if_splits)

text \<open>
  C2, as the specification words it: for every floating-point array whose maximum
  exceeds its minimum, the sample at the maximum becomes 65535. A floating-point array
  may hold an infinity. In the array (0, 1, +inf) the maximum, +inf, exceeds the
  minimum, 0; the source then computes (inf - 0) / (inf - 0), which is NaN, so the
  rescaled maximum is NaN and not 65535, and on a platform that casts NaN to 0 the
  three output samples are 0. A difference \<open>data_max - data_min\<close> that overflows does
  the same to finite samples.
\<close>

theorem normalize_infinite_counterexample:
  "fold fmin2 [Finite 1, PInf] (Finite 0) = Finite 0 \<and>
   fold fmax2 [Finite 1, PInf] (Finite 0) = PInf \<and>
   fless (Finite 0) PInf \<and>
   rescale (unrounded float64) (Finite 0) PInf PInf = NaN \<and>
   normalize_samples unrounded wrap_cast (FloatArray float64 [Finite 0, Finite 1, PInf])
     = Inr (UInt16Array [0, 0, 0]) \<and>
   (0 :: 16 word) \<noteq> 65535"
  by (simp add: fmin2_def fmax2_def rescale_def unrounded_def trunc_toward_zero_def)

text \<open>
  C2, amended. For every floating-point array of finite samples whose maximum exceeds
  its minimum and whose difference \<open>max - min\<close> is computed as a finite positive
  number (it does not overflow), the normalizer returns a 16-bit array of the same
  length; every rescaled value is finite and lies in [0, 65535] and so does every
  output sample, a sample equal to the minimum becomes 0 and a sample equal to the
  maximum becomes 65535. This holds for every rounding that is monotone and exact on
  0, 1 and 65535, and whatever the platform does with values out of range, since none
  occurs.
\<close>

theorem normalize_range:
  assumes "rounds_to_nearest (rnd w)"
    and "rs \<noteq> []" and "Min (set rs) < Max (set rs)"
    and "rnd w (Max (set rs) - Min (set rs)) = Finite D" and "0 < D"
  shows "\<exists>ys. normalize_samples rnd oor (FloatArray w (map Finite rs)) = Inr (UInt16Array ys) \<and>
           length ys = length rs \<and>
           (\<forall>i<length rs. \<exists>p.
              rescale (rnd w) (Finite (Min (set rs))) (Finite (Max (set rs))) (Finite (rs ! i))
                = Finite p \<and>
              0 \<le> p \<and> p \<le> 65535 \<and>
              uint (ys ! i) = \<lfloor>p\<rfloor> \<and> 0 \<le> uint (ys ! i) \<and> uint (ys ! i) \<le> 65535 \<and>
              (rs ! i = Min (set rs) \<longrightarrow> ys ! i = 0) \<and>
              (rs ! i = Max (set rs) \<longrightarrow> ys ! i = 65535))"
proof -
  let ?mn = "Min (set rs)" and ?mx = "Max (set rs)"
  let ?f = "\<lambda>v. astype_uint16 oor (rescale (rnd w) (Finite ?mn) (Finite ?mx) (Finite v))"
  have eq: "normalize_samples rnd oor (FloatArray w (map Finite rs)) = Inr (UInt16Array (map ?f rs))"
    using assms(2,3) by (simp add: normalize_finite_nonempty)
  have each: "\<exists>p. rescale (rnd w) (Finite ?mn) (Finite ?mx) (Finite (rs ! i)) = Finite p \<and>
      0 \<le> p \<and> p \<le> 65535 \<and>
      uint (map ?f rs ! i) = \<lfloor>p\<rfloor> \<and> 0 \<le> uint (map ?f rs ! i) \<and>
      uint (map ?f rs ! i) \<le> 65535 \<and>
      (rs ! i = ?mn \<longrightarrow> map ?f rs ! i = 0) \<and> (rs ! i = ?mx \<longrightarrow> map ?f rs ! i = 65535)"
    if i: "i < length rs" for i
  proof -
    have mem: "rs ! i \<in> set rs" using i by simp
    have lo: "?mn \<le> rs ! i" and hi: "rs ! i \<le> ?mx" using mem by simp_all
    obtain p where p: "rescale (rnd w) (Finite ?mn) (Finite ?mx) (Finite (rs ! i)) = Finite p"
      and p0: "0 \<le> p" and p1: "p \<le> 65535"
      and pmin: "rs ! i = ?mn \<longrightarrow> p = 0" and pmax: "rs ! i = ?mx \<longrightarrow> p = 65535"
      using rescale_finite [OF assms(1) assms(4) assms(5) lo hi] by blast
    have c: "map ?f rs ! i = word_of_int \<lfloor>p\<rfloor>"
      using i p astype_in_range [OF p0 p1] by simp
    have u: "uint (map ?f rs ! i) = \<lfloor>p\<rfloor>"
      unfolding c by (rule uint_floor_in_range [OF p0 p1])
    have f0: "0 \<le> \<lfloor>p\<rfloor>" using p0 by simp
    have f1: "\<lfloor>p\<rfloor> \<le> 65535" using p1 by (simp add: floor_le_iff)
    have z: "map ?f rs ! i = 0" if "rs ! i = ?mn"
      unfolding c using pmin that by simp
    have m: "map ?f rs ! i = 65535" if "rs ! i = ?mx"
      unfolding c using pmax that by simp
    show ?thesis using p p0 p1 u f0 f1 z m by auto
  qed
  have len: "length (map ?f rs) = length rs" by simp
  show ?thesis using eq len each by blast
qed

theorem normalize_range_witness:
  "normalize_samples unrounded wrap_cast (FloatArray float64 (map Finite [0, 1, 4]))
     = Inr (UInt16Array [0, 16383, 65535])
   \<and> Min (set [0, 1, 4 :: real]) = 0 \<and> Max (set [0, 1, 4 :: real]) = 4
   \<and> rounds_to_nearest (unrounded float64) \<and> unrounded float64 (4 - 0) = Finite 4"
  using normalize_range [of unrounded float64 "[0, 1, 4]" 4 wrap_cast]
  by (simp add: rounds_to_nearest_def unrounded_def fmin2_def fmax2_def rescale_def
      trunc_toward_zero_def)

text \<open>
  C3, as the specification words it: each normalized sample is
  \<open>round((v - min) / (max - min) * 65535)\<close>. The source casts with
  \<open>astype(np.uint16)\<close>, which truncates: in the array (0, 1, 4) the sample 1 is
  rescaled to 16383.75 (every intermediate result is representable, so nothing is
  rounded on the way), which the code turns into 16383 and the formula into 16384.
\<close>

theorem normalize_rounds_counterexample:
  "Min (set [0, 1, 4 :: real]) = 0 \<and> Max (set [0, 1, 4 :: real]) = 4 \<and>
   normalize_samples unrounded wrap_cast (FloatArray float64 (map Finite [0, 1, 4]))
     = Inr (UInt16Array [0, 16383, 65535]) \<and>
   map (spec_normalized_sample 0 4) [0, 1, 4] = [0, 16384, 65535] \<and>
   normalize_samples unrounded wrap_cast (FloatArray float64 (map Finite [0, 1, 4]))
     \<noteq> Inr (UInt16Array (map (spec_normalized_sample 0 4) [0, 1, 4]))"
  by (simp add: unrounded_def fmin2_def fmax2_def rescale_def trunc_toward_zero_def
      spec_normalized_sample_def round_def)

text \<open>
  C3, amended. For every floating-point array of finite samples whose maximum exceeds
  its minimum and whose difference \<open>max - min\<close> does not overflow, each normalized
  sample is the floating-point value of \<open>(v - min) / (max - min) * 65535\<close>, computed
  with a rounding after each of the three operations, truncated to an integer (its
  floor, the value lying between 0 and 65535): the cast does not round to the
  nearest integer.
\<close>

theorem normalize_truncates:
  assumes "rounds_to_nearest (rnd w)"
    and "rs \<noteq> []" and "Min (set rs) < Max (set rs)"
    and "rnd w (Max (set rs) - Min (set rs)) = Finite D" and "0 < D"
  shows "\<exists>ps. length ps = length rs \<and>
           (\<forall>i<length rs.
              rescale (rnd w) (Finite (Min (set rs))) (Finite (Max (set rs))) (Finite (rs ! i))
                = Finite (ps ! i) \<and>
              0 \<le> ps ! i \<and> ps ! i \<le> 65535) \<and>
           normalize_samples rnd oor (FloatArray w (map Finite rs))
             = Inr (UInt16Array (map (\<lambda>p. word_of_int \<lfloor>p\<rfloor>) ps))"
proof -
  let ?mn = "Min (set rs)" and ?mx = "Max (set rs)"
  let ?g = "\<lambda>v. rescale (rnd w) (Finite ?mn) (Finite ?mx) (Finite v)"
  have ex: "\<exists>p. ?g v = Finite p \<and> 0 \<le> p \<and> p \<le> 65535" if "v \<in> set rs" for v
  proof -
    have lo: "?mn \<le> v" and hi: "v \<le> ?mx" using that by simp_all
    show ?thesis
      using rescale_finite [OF assms(1) assms(4) assms(5) lo hi] by blast
  qed
  define val where "val v = (case ?g v of Finite p \<Rightarrow> p | _ \<Rightarrow> 0)" for v
  have val: "?g v = Finite (val v) \<and> 0 \<le> val v \<and> val v \<le> 65535" if "v \<in> set rs" for v
    using ex [OF that] by (auto simp: val_def)
  have cast: "astype_uint16 oor (?g v) = word_of_int \<lfloor>val v\<rfloor>" if "v \<in> set rs" for v
    using val [OF that] astype_in_range [of "val v" oor] by simp
  have "map (\<lambda>v. astype_uint16 oor (?g v)) rs = map (\<lambda>p. word_of_int \<lfloor>p\<rfloor>) (map val rs)"
    using cast by simp
  then have eq: "normalize_samples rnd oor (FloatArray w (map Finite rs))
      = Inr (UInt16Array (map (\<lambda>p. word_of_int \<lfloor>p\<rfloor>) (map val rs)))"
    using assms(2,3) by (simp add: normalize_finite_nonempty)
  have pts: "\<forall>i<length rs. ?g (rs ! i) = Finite (map val rs ! i) \<and>
      0 \<le> map val rs ! i \<and> map val rs ! i \<le> 65535"
    using val by simp
  have len: "length (map val rs) = length rs" by simp
  show ?thesis using len pts eq by blast
qed

theorem normalize_truncates_witness:
  "normalize_samples unrounded wrap_cast (FloatArray float64 (map Finite [0, 1, 4]))
     = Inr (UInt16Array [0, 16383, 65535])
   \<and> rounds_to_nearest (unrounded float64) \<and> unrounded float64 (4 - 0) = Finite 4"
  using normalize_truncates [of unrounded float64 "[0, 1, 4]" 4 wrap_cast]
  by (simp add: rounds_to_nearest_def unrounded_def fmin2_def fmax2_def rescale_def
      trunc_toward_zero_def)





text \<open>
  C10. \<open>load_nifti\<close> always returns 64-bit floating-point data, so every array that
  \<open>nifti_to_tiff\<close> hands to the raster writer has element type \<open>uint16\<close>.
\<close>

theorem converter_writes_uint16:
  "(\<forall>data aff hdr. load_nifti env input_path = Inr (data, aff, hdr)
       \<longrightarrow> dtype_of data = FloatT float64) \<and>
   (\<forall>p arr. TiffWrite p arr \<in> set (fst (nifti_to_tiff env rnd oor input_path output_path))
       \<longrightarrow> dtype_of arr = UInt16T)"
proof (intro conjI allI impI)
  fix data aff hdr
  assume "load_nifti env input_path = Inr (data, aff, hdr)"
  then show "dtype_of data = FloatT float64"
    by (auto simp: load_nifti_def get_fdata_def split: sum.splits)
next
  fix p arr
  assume w: "TiffWrite p arr \<in> set (fst (nifti_to_tiff env rnd oor input_path output_path))"
  show "dtype_of arr = UInt16T"
  proof (cases "nib_load env input_path")
    case (Inl e)
    then show ?thesis using w by (simp add: nifti_to_tiff_def load_nifti_def)
  next
    case (Inr img)
    show ?thesis
    proof (cases "normalize_samples rnd oor (FloatArray float64 (fdata img))")
      case (Inl e)
      then show ?thesis
        using w Inr by (simp add: nifti_to_tiff_def load_nifti_def get_fdata_def convert_loaded_def)
    next
      case norm: (Inr data')
      have d: "dtype_of data' = UInt16T" by (rule normalize_float_dtype [OF norm])
      have "arr = data'"
        using w Inr norm
        by (auto simp: nifti_to_tiff_def load_nifti_def get_fdata_def convert_loaded_def Let_def
            split: if_splits)
      then show ?thesis using d by simp
    qed
  qed
qed

theorem converter_writes_uint16_witness:
  "load_nifti (example_env ''scan.nii'' (example_image [0, 1, 4] [])) ''scan.nii''
     = Inr (FloatArray float64 [Finite 0, Finite 1, Finite 4], [],
            \<lparr>zooms = [], header_dump = ''''\<rparr>) \<and>
   nifti_to_tiff (example_env ''scan.nii'' (example_image [0, 1, 4] [])) unrounded wrap_cast
       ''scan.nii'' (Some ''out.tiff'')
     = ([TiffWrite ''out.tiff'' (UInt16Array [0, 16383, 65535]),
         TextWrite ''out_nifti_metadata.txt''
           \<lparr>original_file = ''scan.nii'', data_type = UInt16T, affine_matrix = [],
            pixel_dims = [], header_text = ''''\<rparr>], Inr ''out.tiff'')"
  using converter_writes_uint16 [of "example_env ''scan.nii'' (example_image [0, 1, 4] [])"
      "''scan.nii''" unrounded wrap_cast "Some ''out.tiff''"]
  by (simp add: nifti_to_tiff_def load_nifti_def get_fdata_def convert_loaded_def
      example_env_def example_image_def metadata_path_def unrounded_def fmin2_def fmax2_def
      rescale_def trunc_toward_zero_def Let_def)

subsection \<open>The derived raster path\<close>

text \<open>
  The two inputs the specification names, with and without a directory, and an input
  whose base name itself ends in \<open>.nii\<close> before the two suffixes: each suffix is
  taken off once and \<open>.tiff\<close> is put in its place, in the directory of the input.
\<close>

lemma default_output_path_examples:
  "default_output_path ''scan.nii.gz'' = ''scan.tiff''"
  "default_output_path ''scan.nii'' = ''scan.tiff''"
  "default_output_path ''/data/in/scan.nii.gz'' = ''/data/in/scan.tiff''"
  "default_output_path ''/data/in/scan.nii'' = ''/data/in/scan.tiff''"
  "default_output_path ''scan.nii.nii.gz'' = ''scan.nii.tiff''"
  by code_simp+

text \<open>
  C7. The derived raster path takes the compression suffix and the format suffix off
  the input file name exactly once each. The source comments its steps as
  ``remove .gz if present, then remove .nii'', but its first step is \<open>Path.stem\<close>,
  which removes whatever the last suffix is. On the uncompressed input
  \<open>scan.nii.nii\<close> the first step removes one \<open>.nii\<close> and the second step the
  other: the code derives \<open>scan.tiff\<close>, where taking the format suffix off once
  gives \<open>scan.nii.tiff\<close>.
\<close>

theorem double_nii_stripped_twice:
  "default_output_path ''scan.nii.nii'' = ''scan.tiff''"
  by code_simp

subsection \<open>The path of the metadata file\<close>

text \<open>
  On a raster path with one \<open>.tiff\<close>, at its end, the replacement gives the path the
  specification describes. \<open>str.replace\<close> replaces every occurrence, also one in a
  directory name.
\<close>

lemma metadata_path_examples:
  "metadata_path ''scan.tiff'' = ''scan_nifti_metadata.txt''"
  "metadata_path ''a.tiff_dir/out.tiff'' = ''a_nifti_metadata.txt_dir/out_nifti_metadata.txt''"
  by code_simp+

text \<open>
  C8. The metadata file is written at the raster path with its trailing \<open>.tiff\<close>
  replaced by \<open>_nifti_metadata.txt\<close>, so that it differs from the raster path and
  ends in \<open>.txt\<close>. With the explicit output path \<open>out.tif\<close> nothing is replaced:
  the metadata path is the raster path, and the conversion writes the raster and then
  the text to the same file \<open>out.tif\<close>.
\<close>

theorem sidecar_overwrites_raster:
  "metadata_path ''out.tif'' = ''out.tif'' \<and>
   map write_path
     (fst (nifti_to_tiff (example_env ''scan.nii'' (example_image [0, 1, 4] [])) unrounded
        wrap_cast ''scan.nii'' (Some ''out.tif'')))
     = [''out.tif'', ''out.tif'']"
  by (simp add: nifti_to_tiff_def load_nifti_def get_fdata_def convert_loaded_def
      example_env_def example_image_def metadata_path_def fmin2_def fmax2_def Let_def)

end
